theory Spec2Isabelle
  imports Complex_Main "HOL-Library.AList"
begin

section \<open>ChessVar: a chess variant with hunter and falcon fairy pieces\<close>

text \<open>
  A shallow embedding of \<^verbatim>\<open>ChessVar.py\<close>. The string tags the source uses for colours
  (\<^verbatim>\<open>'white'\<close>, \<^verbatim>\<open>'black'\<close>), piece names and game states are datatypes; square
  names and the piece-type letter of a fairy entry stay strings, since they are caller
  input. Python objects are entries of an object store (a list indexed by reference), a
  dictionary is an association list in insertion order, and every Python exception is a
  value of \<open>py_error\<close>.
\<close>

subsection \<open>Data\<close>

datatype color = white | black

datatype kind = pawn | rook | knight | bishop | queen | king | hunter | falcon

datatype game_state = UNFINISHED | WHITE_WON | BLACK_WON

datatype py_error = KeyError | TypeError | ValueError

text \<open>What a call does: it returns a value or it raises.\<close>

datatype 'a outcome = Return 'a | Raise py_error

text \<open>
  A piece object: its class (one per \<open>piece_name\<close>), its colour and, read by pawns
  only, the \<open>_first_move\<close> flag.
\<close>

record piece =
  piece_name :: kind
  color :: color
  first_move :: bool

type_synonym ref = nat

record Player =
  active_pieces :: "kind list"
  captured_pieces :: "kind list"
  fairy_pieces_stable :: "kind list"

text \<open>
  The match: the fields of \<^verbatim>\<open>ChessVar\<close>, the board's \<^verbatim>\<open>_board_dict\<close> (a key is
  bound to \<open>None\<close>, Python's \<^verbatim>\<open>None\<close>, or to a reference), and the store of the piece
  objects. \<^verbatim>\<open>_piece_generation_counter\<close> is read by \<^verbatim>\<open>get_piece_counter\<close> only, which
  nothing calls, and is left out.
\<close>

record ChessVar =
  turn :: int
  game_state :: game_state
  player_1 :: Player
  player_2 :: Player
  board_dict :: "(string \<times> ref option) list"
  pieces :: "piece list"

subsection \<open>Board: coordinate translation\<close>

definition name_to_location_dict :: "(string \<times> int) list" where
  "name_to_location_dict =
    [(''a8'', 0), (''b8'', 1), (''c8'', 2), (''d8'', 3), (''e8'', 4), (''f8'', 5), (''g8'', 6), (''h8'', 7),
     (''a7'', 8), (''b7'', 9), (''c7'', 10), (''d7'', 11), (''e7'', 12), (''f7'', 13), (''g7'', 14), (''h7'', 15),
     (''a6'', 16), (''b6'', 17), (''c6'', 18), (''d6'', 19), (''e6'', 20), (''f6'', 21), (''g6'', 22), (''h6'', 23),
     (''a5'', 24), (''b5'', 25), (''c5'', 26), (''d5'', 27), (''e5'', 28), (''f5'', 29), (''g5'', 30), (''h5'', 31),
     (''a4'', 32), (''b4'', 33), (''c4'', 34), (''d4'', 35), (''e4'', 36), (''f4'', 37), (''g4'', 38), (''h4'', 39),
     (''a3'', 40), (''b3'', 41), (''c3'', 42), (''d3'', 43), (''e3'', 44), (''f3'', 45), (''g3'', 46), (''h3'', 47),
     (''a2'', 48), (''b2'', 49), (''c2'', 50), (''d2'', 51), (''e2'', 52), (''f2'', 53), (''g2'', 54), (''h2'', 55),
     (''a1'', 56), (''b1'', 57), (''c1'', 58), (''d1'', 59), (''e1'', 60), (''f1'', 61), (''g1'', 62), (''h1'', 63)]"

text \<open>The dictionary \<^verbatim>\<open>Board.__init__\<close> builds: 68 keys, all bound to \<^verbatim>\<open>None\<close>.\<close>

definition empty_board_dict :: "(string \<times> ref option) list" where
  "empty_board_dict =
    [(''f'', None), (''h'', None)] @ map (\<lambda>(n, l). (n, None)) name_to_location_dict
    @ [(''F'', None), (''H'', None)]"

text \<open>
  \<^verbatim>\<open>get_space_name_as_location\<close>: membership is tested in the board's dictionary and the
  lookup is made in the location table, so a key of the first that the second lacks (a
  stable key) raises \<^verbatim>\<open>KeyError\<close>; a name in neither gives \<^verbatim>\<open>None\<close>.
\<close>

definition get_space_name_as_location ::
  "(string \<times> ref option) list \<Rightarrow> string \<Rightarrow> py_error + int option" where
  "get_space_name_as_location bd space_name =
    (if space_name \<in> fst ` set bd then
       (case map_of name_to_location_dict space_name of
          None \<Rightarrow> Inl KeyError
        | Some l \<Rightarrow> Inr (Some l))
     else Inr None)"

text \<open>
  \<^verbatim>\<open>get_location_as_space_name\<close>: the first key, in the table's order, whose value is the
  location; falling off the loop returns \<^verbatim>\<open>None\<close>.
\<close>

fun location_loop :: "(string \<times> int) list \<Rightarrow> int \<Rightarrow> string option" where
  "location_loop [] location = None"
| "location_loop ((key, val) # items) location =
    (if location = val then Some key else location_loop items location)"

definition get_location_as_space_name :: "int \<Rightarrow> string option" where
  "get_location_as_space_name location = location_loop name_to_location_dict location"

subsection \<open>Piece catalog\<close>

text \<open>
  Every \<^verbatim>\<open>valid_move\<close> returns \<^verbatim>\<open>None\<close> or a list of locations. A \<^verbatim>\<open>for\<close> loop over
  \<^verbatim>\<open>range(a, b + 1)\<close> that appends the locations passing a test is the filter of
  \<open>[a..b]\<close>, which is empty when \<open>b < a\<close> as the range is. Python's \<^verbatim>\<open>%\<close> with a
  positive divisor is \<open>mod\<close> on \<open>int\<close>.
\<close>

definition edge_one :: "int list" where
  "edge_one = [0, 8, 16, 24, 32, 40, 48, 56]"

definition edge_eight :: "int list" where
  "edge_eight = [7, 15, 23, 31, 39, 47, 55, 63]"

text \<open>
  \<^verbatim>\<open>Pawn.valid_move\<close> assigns \<^verbatim>\<open>self._first_move = False\<close> before each \<^verbatim>\<open>return\<close> of a
  list, so the model returns the pawn as the call leaves it next to the result. The last
  argument is the colour of the occupant of the new location (\<open>None\<close> for an empty one):
  the colour is all any \<^verbatim>\<open>valid_move\<close> reads of the occupant.
\<close>

definition Pawn_valid_move ::
  "piece \<Rightarrow> int \<Rightarrow> int \<Rightarrow> color option \<Rightarrow> int list option \<times> piece" where
  "Pawn_valid_move self current_location new_location new_location_occupant =
    (let moved = self\<lparr>first_move := False\<rparr> in
     if current_location \<notin> set edge_one \<and> current_location \<notin> set edge_eight
        \<and> color self = black then
       (if current_location + 8 = new_location \<and> new_location_occupant = None then
          (Some [new_location], moved)
        else if current_location + 16 = new_location \<and> first_move self
                \<and> new_location_occupant = None then
          (Some [current_location + 8, new_location], moved)
        else if new_location_occupant = Some black then (None, self)
        else if new_location_occupant = Some white
                \<and> (current_location + 7 = new_location \<or> current_location + 9 = new_location) then
          (Some [new_location], moved)
        else (None, self))
     else if current_location \<notin> set edge_one \<and> current_location \<notin> set edge_eight then
       \<comment> \<open>white, not on either edge\<close>
       (if current_location - 8 = new_location \<and> new_location_occupant = None then
          (Some [new_location], moved)
        else if current_location - 16 = new_location \<and> first_move self
                \<and> new_location_occupant = None then
          (Some [current_location - 8, new_location], moved)
        else if new_location_occupant = Some black
                \<and> (current_location - 7 = new_location \<or> current_location - 9 = new_location) then
          (Some [new_location], moved)
        else (None, self))
     else if current_location \<in> set edge_one \<and> color self = black then
       (if current_location + 8 = new_location \<and> new_location_occupant = None then
          (Some [new_location], moved)
        else if current_location + 16 = new_location \<and> first_move self
                \<and> new_location_occupant = None then
          (Some [current_location + 8, new_location], moved)
        else if new_location_occupant = Some white \<and> current_location + 9 = new_location then
          (Some [new_location], moved)
        else (None, self))
     else if current_location \<in> set edge_eight \<and> color self = black then
       (if current_location + 8 = new_location \<and> new_location_occupant = None then
          (Some [new_location], moved)
        else if current_location + 16 = new_location \<and> first_move self
                \<and> new_location_occupant = None then
          (Some [current_location + 8, new_location], moved)
        else if new_location_occupant = Some white \<and> current_location + 7 = new_location then
          (Some [new_location], moved)
        else (None, self))
     else if current_location \<in> set edge_one then
       \<comment> \<open>white, on edge one (left)\<close>
       (if current_location - 8 = new_location \<and> new_location_occupant = None then
          (Some [new_location], moved)
        else if current_location - 16 = new_location \<and> first_move self
                \<and> new_location_occupant = None then
          (Some [current_location - 8, new_location], moved)
        else if new_location_occupant = Some black \<and> current_location - 7 = new_location then
          (Some [new_location], moved)
        else (None, self))
     else
       \<comment> \<open>white, on edge eight (right)\<close>
       (if current_location - 8 = new_location \<and> new_location_occupant = None then
          (Some [new_location], moved)
        else if current_location - 16 = new_location \<and> first_move self
                \<and> new_location_occupant = None then
          (Some [current_location - 8, new_location], moved)
        else if new_location_occupant = Some black \<and> current_location - 9 = new_location then
          (Some [new_location], moved)
        else (None, self)))"

text \<open>
  The body the eight row branches of \<^verbatim>\<open>Rook.valid_move\<close> share: two \<^verbatim>\<open>if\<close>s in a row,
  whose tests \<^verbatim>\<open>current_location > new_location\<close> and
  \<^verbatim>\<open>new_location < current_location\<close> are the same test, each appending a range.
\<close>

definition row_walk :: "int \<Rightarrow> int \<Rightarrow> int list" where
  "row_walk current_location new_location =
    (if current_location > new_location then [new_location..current_location] else [])
    @ (if new_location < current_location then [current_location..new_location] else [])"

definition in_row :: "int \<Rightarrow> int \<Rightarrow> int \<Rightarrow> int \<Rightarrow> bool" where
  "in_row lo hi current_location new_location \<longleftrightarrow>
    lo \<le> current_location \<and> current_location \<le> hi \<and> lo \<le> new_location \<and> new_location \<le> hi"

definition Rook_valid_move :: "int \<Rightarrow> int \<Rightarrow> int list option" where
  "Rook_valid_move current_location new_location =
    (if (current_location - new_location) mod 8 = 0 then
       (if current_location < new_location then
          Some (filter (\<lambda>location. (current_location - location) mod 8 = 0)
                  [current_location..new_location])
        else if current_location > new_location then
          Some (filter (\<lambda>location. (current_location - location) mod 8 = 0)
                  [new_location..current_location])
        else Some [])
     else if in_row 0 7 current_location new_location then
       Some (row_walk current_location new_location)
     else if in_row 8 15 current_location new_location then
       Some (row_walk current_location new_location)
     else if in_row 16 23 current_location new_location then
       Some (row_walk current_location new_location)
     else if in_row 24 31 current_location new_location then
       Some (row_walk current_location new_location)
     else if in_row 32 39 current_location new_location then
       Some (row_walk current_location new_location)
     else if in_row 40 47 current_location new_location then
       Some (row_walk current_location new_location)
     else if in_row 48 55 current_location new_location then
       Some (row_walk current_location new_location)
     else if in_row 56 63 current_location new_location then
       Some (row_walk current_location new_location)
     else None)"

text \<open>
  \<^verbatim>\<open>Bishop.valid_move\<close>. In the branch for a multiple of 7 the \<^verbatim>\<open>return\<close> stands inside
  the \<^verbatim>\<open>for\<close> loop, so the loop ends in its first round; a loop over an empty range
  would fall through to the final \<^verbatim>\<open>return None\<close>. In the branch for a multiple of 9
  the \<^verbatim>\<open>return\<close> follows the loop.
\<close>

fun bishop_loop7 :: "int \<Rightarrow> int list \<Rightarrow> int list \<Rightarrow> int list option" where
  "bishop_loop7 current_location valid_move_list [] = None"
| "bishop_loop7 current_location valid_move_list (location # rest) =
    Some (if abs (location - current_location) mod 7 = 0
          then valid_move_list @ [location] else valid_move_list)"

definition Bishop_valid_move :: "int \<Rightarrow> int \<Rightarrow> int list option" where
  "Bishop_valid_move current_location new_location =
    (if (current_location - new_location) mod 7 = 0 then
       (if current_location > new_location then
          bishop_loop7 current_location [] [new_location..current_location]
        else if new_location > current_location then
          bishop_loop7 current_location [] [current_location..new_location]
        else None)
     else if (current_location - new_location) mod 9 = 0 then
       (if current_location > new_location then
          Some (filter (\<lambda>location. abs (location - current_location) mod 9 = 0)
                  [new_location..current_location])
        else if new_location > current_location then
          Some (filter (\<lambda>location. abs (location - current_location) mod 9 = 0)
                  [current_location..new_location])
        else None)
     else None)"

text \<open>
  \<^verbatim>\<open>Knight.valid_move\<close> and \<^verbatim>\<open>King.valid_move\<close> compare a true division with 1:
  \<^verbatim>\<open>abs(current_location - new_location) / 6 == 1\<close>. The quotient is taken in the
  rationals here; for the differences of board locations the float quotient Python
  computes equals 1 exactly when the rational one does.
\<close>

definition ratio_is_one :: "int \<Rightarrow> int \<Rightarrow> bool" where
  "ratio_is_one n d \<longleftrightarrow> (of_int n :: rat) / of_int d = 1"

definition Knight_valid_move :: "int \<Rightarrow> int \<Rightarrow> int list option" where
  "Knight_valid_move current_location new_location =
    (if ratio_is_one (abs (current_location - new_location)) 6
        \<or> ratio_is_one (abs (current_location - new_location)) 10
        \<or> ratio_is_one (abs (current_location - new_location)) 14
        \<or> ratio_is_one (abs (current_location - new_location)) 15
        \<or> ratio_is_one (abs (current_location - new_location)) 17
     then Some [new_location] else None)"

definition King_valid_move :: "int \<Rightarrow> int \<Rightarrow> int list option" where
  "King_valid_move current_location new_location =
    (if ratio_is_one (abs (current_location - new_location)) 9
        \<or> ratio_is_one (abs (current_location - new_location)) 8
        \<or> ratio_is_one (abs (current_location - new_location)) 7
     then Some [new_location]
     else if current_location + 1 = new_location \<or> current_location - 1 = new_location
     then Some [new_location]
     else None)"

text \<open>
  \<^verbatim>\<open>Queen.valid_move\<close>: the rook's chain of branches, where a move in no row falls
  through to a second chain for the diagonals (here each \<^verbatim>\<open>return\<close> follows its loop).
\<close>

definition Queen_diagonal :: "int \<Rightarrow> int \<Rightarrow> int list option" where
  "Queen_diagonal current_location new_location =
    (if abs (current_location - new_location) mod 7 = 0 then
       (if current_location > new_location then
          Some (filter (\<lambda>location. abs (location - current_location) mod 7 = 0)
                  [new_location..current_location])
        else if new_location > current_location then
          Some (filter (\<lambda>location. abs (location - current_location) mod 7 = 0)
                  [current_location..new_location])
        else None)
     else if abs (current_location - new_location) mod 9 = 0 then
       (if current_location > new_location then
          Some (filter (\<lambda>location. abs (location - current_location) mod 9 = 0)
                  [new_location..current_location])
        else if new_location > current_location then
          Some (filter (\<lambda>location. abs (location - current_location) mod 9 = 0)
                  [current_location..new_location])
        else None)
     else None)"

definition Queen_valid_move :: "int \<Rightarrow> int \<Rightarrow> int list option" where
  "Queen_valid_move current_location new_location =
    (if (current_location - new_location) mod 8 = 0 then
       (if current_location < new_location then
          Some (filter (\<lambda>location. abs (current_location - location) mod 8 = 0)
                  [current_location..new_location])
        else if current_location > new_location then
          Some (filter (\<lambda>location. abs (current_location - location) mod 8 = 0)
                  [new_location..current_location])
        else Some [])
     else if in_row 0 7 current_location new_location then
       Some (row_walk current_location new_location)
     else if in_row 8 15 current_location new_location then
       Some (row_walk current_location new_location)
     else if in_row 16 23 current_location new_location then
       Some (row_walk current_location new_location)
     else if in_row 24 31 current_location new_location then
       Some (row_walk current_location new_location)
     else if in_row 32 39 current_location new_location then
       Some (row_walk current_location new_location)
     else if in_row 40 47 current_location new_location then
       Some (row_walk current_location new_location)
     else if in_row 48 55 current_location new_location then
       Some (row_walk current_location new_location)
     else if in_row 56 63 current_location new_location then
       Some (row_walk current_location new_location)
     else Queen_diagonal current_location new_location)"

text \<open>
  \<^verbatim>\<open>Hunter.valid_move\<close>. The diagonal tests read
  \<^verbatim>\<open>location - current_location % 7 == 0\<close>, where \<^verbatim>\<open>%\<close> binds tighter than \<^verbatim>\<open>-\<close>.
\<close>

definition Hunter_valid_move :: "color \<Rightarrow> int \<Rightarrow> int \<Rightarrow> int list option" where
  "Hunter_valid_move c current_location new_location =
    (case c of
       black \<Rightarrow>
         (if new_location > current_location then
            (if (current_location - new_location) mod 8 = 0 then
               Some (filter (\<lambda>location. (current_location - location) mod 8 = 0)
                       [current_location..new_location])
             else None)
          else if new_location < current_location then
            (if (current_location - new_location) mod 7 = 0 then
               Some (filter (\<lambda>location. location - current_location mod 7 = 0)
                       [new_location..current_location])
             else if (current_location - new_location) mod 9 = 0 then
               Some (filter (\<lambda>location. location - current_location mod 9 = 0)
                       [new_location..current_location])
             else None)
          else None)
     | white \<Rightarrow>
         (if new_location < current_location then
            (if (current_location - new_location) mod 8 = 0 then
               Some (filter (\<lambda>location. (current_location - location) mod 8 = 0)
                       [new_location..current_location])
             else None)
          else if new_location > current_location then
            (if (current_location - new_location) mod 7 = 0 then
               Some (filter (\<lambda>location. location - current_location mod 7 = 0)
                       [current_location..new_location])
             else if (current_location - new_location) mod 9 = 0 then
               Some (filter (\<lambda>location. location - current_location mod 9 = 0)
                       [current_location..new_location])
             else None)
          else None))"

text \<open>
  \<^verbatim>\<open>Falcon.valid_move\<close>: both ranges of the black branches, \<^verbatim>\<open>range(current_location,
  new_location + 1)\<close> under \<^verbatim>\<open>new_location < current_location\<close> and the converse, run
  from the larger location to the smaller and are empty. The third block of the source,
  which returns \<^verbatim>\<open>False\<close>, follows two blocks that return for either colour and is never
  reached.
\<close>

definition Falcon_valid_move :: "color \<Rightarrow> int \<Rightarrow> int \<Rightarrow> int list option" where
  "Falcon_valid_move c current_location new_location =
    (case c of
       black \<Rightarrow>
         (if new_location < current_location then
            (if (current_location - new_location) mod 8 = 0 then
               Some (filter (\<lambda>location. (current_location - location) mod 8 = 0)
                       [current_location..new_location])
             else None)
          else if new_location > current_location then
            (if (current_location - new_location) mod 7 = 0 then
               Some (filter (\<lambda>location. location - current_location mod 7 = 0)
                       [new_location..current_location])
             else if (current_location - new_location) mod 9 = 0 then
               Some (filter (\<lambda>location. location - current_location mod 9 = 0)
                       [new_location..current_location])
             else None)
          else None)
     | white \<Rightarrow>
         (if new_location > current_location then
            (if (current_location - new_location) mod 8 = 0 then
               Some (filter (\<lambda>location. (current_location - location) mod 8 = 0)
                       [current_location..new_location])
             else None)
          else if new_location < current_location then
            (if (current_location - new_location) mod 7 = 0 then
               Some (filter (\<lambda>location. location - current_location mod 7 = 0)
                       [new_location..current_location])
             else if (current_location - new_location) mod 9 = 0 then
               Some (filter (\<lambda>location. location - current_location mod 9 = 0)
                       [new_location..current_location])
             else None)
          else None))"

text \<open>Method dispatch on the class of the moving piece.\<close>

definition valid_move ::
  "piece \<Rightarrow> int \<Rightarrow> int \<Rightarrow> color option \<Rightarrow> int list option \<times> piece" where
  "valid_move self current_location new_location new_location_occupant =
    (case piece_name self of
       pawn \<Rightarrow> Pawn_valid_move self current_location new_location new_location_occupant
     | rook \<Rightarrow> (Rook_valid_move current_location new_location, self)
     | knight \<Rightarrow> (Knight_valid_move current_location new_location, self)
     | bishop \<Rightarrow> (Bishop_valid_move current_location new_location, self)
     | queen \<Rightarrow> (Queen_valid_move current_location new_location, self)
     | king \<Rightarrow> (King_valid_move current_location new_location, self)
     | hunter \<Rightarrow> (Hunter_valid_move (color self) current_location new_location, self)
     | falcon \<Rightarrow> (Falcon_valid_move (color self) current_location new_location, self))"

subsection \<open>Player\<close>

text \<open>
  \<^verbatim>\<open>new_piece_set\<close> appends a pawn for each of \<^verbatim>\<open>range(1, 8)\<close>, seven of them, then the
  other pieces, and puts both fairy pieces in the stable.
\<close>

definition new_piece_set :: "Player \<Rightarrow> Player" where
  "new_piece_set p =
    p\<lparr>active_pieces := active_pieces p @ replicate 7 pawn
         @ [rook, rook, knight, knight, bishop, bishop, king, queen],
      fairy_pieces_stable := fairy_pieces_stable p @ [hunter, falcon]\<rparr>"

definition new_Player :: Player where
  "new_Player = \<lparr>active_pieces = [], captured_pieces = [], fairy_pieces_stable = []\<rparr>"

text \<open>
  \<^verbatim>\<open>remove_active_piece\<close> removes the first occurrence of the name, if there is one;
  \<^verbatim>\<open>remove_fairy_piece\<close> is a bare \<^verbatim>\<open>list.remove\<close>, which raises \<^verbatim>\<open>ValueError\<close> when
  the name is absent.
\<close>

definition remove_active_piece :: "Player \<Rightarrow> kind \<Rightarrow> Player" where
  "remove_active_piece p name = p\<lparr>active_pieces := remove1 name (active_pieces p)\<rparr>"

definition add_captured_piece :: "Player \<Rightarrow> kind \<Rightarrow> Player" where
  "add_captured_piece p name = p\<lparr>captured_pieces := captured_pieces p @ [name]\<rparr>"

definition remove_fairy_piece :: "Player \<Rightarrow> kind \<Rightarrow> py_error + Player" where
  "remove_fairy_piece p name =
    (if name \<in> set (fairy_pieces_stable p)
     then Inr (p\<lparr>fairy_pieces_stable := remove1 name (fairy_pieces_stable p)\<rparr>)
     else Inl ValueError)"

subsection \<open>Setting up the board\<close>

text \<open>
  \<^verbatim>\<open>populate_board\<close> creates the pieces of one colour in the source's order, each a new
  object (the next free reference of the store), and binds each to its key. An
  assignment \<^verbatim>\<open>d[key] = v\<close> to a dictionary is \<open>AList.update\<close>: it rebinds the key where
  it stands, or appends it. The rows arrive as the strings \<^verbatim>\<open>str(row_front)\<close> and
  \<^verbatim>\<open>str(row_back)\<close>.
\<close>

definition new_piece :: "kind \<Rightarrow> color \<Rightarrow> piece" where
  "new_piece k c = \<lparr>piece_name = k, color = c, first_move = True\<rparr>"

definition place ::
  "color \<Rightarrow> kind \<times> string \<Rightarrow> (string \<times> ref option) list \<times> piece list
    \<Rightarrow> (string \<times> ref option) list \<times> piece list" where
  "place c = (\<lambda>(k, key) (bd, ps). (AList.update key (Some (length ps)) bd, ps @ [new_piece k c]))"

definition populate_board ::
  "color \<Rightarrow> string \<Rightarrow> string \<Rightarrow> (string \<times> ref option) list \<times> piece list
    \<Rightarrow> (string \<times> ref option) list \<times> piece list" where
  "populate_board c row_front row_back =
    fold (place c)
      ([(pawn, ''a'' @ row_front), (pawn, ''b'' @ row_front), (pawn, ''c'' @ row_front),
        (pawn, ''d'' @ row_front), (pawn, ''e'' @ row_front), (pawn, ''f'' @ row_front),
        (pawn, ''g'' @ row_front), (pawn, ''h'' @ row_front),
        (rook, ''a'' @ row_back), (rook, ''h'' @ row_back),
        (knight, ''b'' @ row_back), (knight, ''g'' @ row_back),
        (bishop, ''c'' @ row_back), (bishop, ''f'' @ row_back),
        (queen, ''d'' @ row_back), (king, ''e'' @ row_back)]
       @ (case c of
            black \<Rightarrow> [(falcon, ''f''), (hunter, ''h'')]
          | white \<Rightarrow> [(falcon, ''F''), (hunter, ''H'')]))"

text \<open>\<^verbatim>\<open>ChessVar.__init__\<close>: black's pieces are created first, then white's.\<close>

definition ChessVar_init :: ChessVar where
  "ChessVar_init =
    (let (bd, ps) = populate_board white ''2'' ''1''
                      (populate_board black ''7'' ''8'' (empty_board_dict, []))
     in \<lparr>turn = 1, game_state = UNFINISHED,
         player_1 = new_piece_set new_Player, player_2 = new_piece_set new_Player,
         board_dict = bd, pieces = ps\<rparr>)"

subsection \<open>Match controller\<close>

definition increment_turn :: "ChessVar \<Rightarrow> ChessVar" where
  "increment_turn g =
    (let g1 = (if king \<in> set (captured_pieces (player_1 g))
               then g\<lparr>game_state := BLACK_WON\<rparr> else g);
         g2 = (if king \<in> set (captured_pieces (player_2 g1))
               then g1\<lparr>game_state := WHITE_WON\<rparr> else g1)
     in g2\<lparr>turn := turn g2 + 1\<rparr>)"

definition player_turn :: "ChessVar \<Rightarrow> color" where
  "player_turn g = (if turn g mod 2 = 1 then white else black)"

text \<open>
  The loop of \<^verbatim>\<open>make_move\<close> over the list \<^verbatim>\<open>valid_move\<close> returned: \<open>Return True\<close> when a
  location other than the two ends holds a piece (where \<^verbatim>\<open>make_move\<close> returns
  \<^verbatim>\<open>False\<close>), \<open>Return False\<close> when the loop runs to its end. A location with no name
  gives the key \<^verbatim>\<open>None\<close>, which the dictionary lacks.
\<close>

fun blocked ::
  "(string \<times> ref option) list \<Rightarrow> int \<Rightarrow> int \<Rightarrow> int list \<Rightarrow> bool outcome" where
  "blocked bd new_square_location moving_piece_location [] = Return False"
| "blocked bd new_square_location moving_piece_location (move # rest) =
    (if move \<noteq> new_square_location \<and> move \<noteq> moving_piece_location then
       (case get_location_as_space_name move of
          None \<Rightarrow> Raise KeyError
        | Some name \<Rightarrow>
            (case map_of bd name of
               None \<Rightarrow> Raise KeyError
             | Some (Some occupant) \<Rightarrow> Return True
             | Some None \<Rightarrow> blocked bd new_square_location moving_piece_location rest))
     else blocked bd new_square_location moving_piece_location rest)"

text \<open>
  The capture step and the updates of a validated move. White's capture is written to
  \<^verbatim>\<open>_player_2\<close> and black's to \<^verbatim>\<open>_player_1\<close>: a player's captured list holds the pieces
  that player has lost.
\<close>

definition apply_move :: "ChessVar \<Rightarrow> ref \<Rightarrow> string \<Rightarrow> string \<Rightarrow> bool outcome \<times> ChessVar" where
  "apply_move g moving_piece current_square new_square =
    (let bd1 = AList.update new_square (Some moving_piece) (board_dict g);
         bd2 = AList.update current_square None bd1
     in (Return True, increment_turn (g\<lparr>board_dict := bd2\<rparr>)))"

definition capture_and_move ::
  "ChessVar \<Rightarrow> ref \<Rightarrow> string \<Rightarrow> string \<Rightarrow> ref option \<Rightarrow> bool outcome \<times> ChessVar" where
  "capture_and_move g moving_piece current_square new_square opponent_in_new_square =
    (case opponent_in_new_square of
       None \<Rightarrow> apply_move g moving_piece current_square new_square
     | Some opponent \<Rightarrow>
         (let oc = color (pieces g ! opponent); name = piece_name (pieces g ! opponent) in
          (case player_turn g of
            white \<Rightarrow>
             (if oc = white then (Return False, g)
              else apply_move
                (g\<lparr>player_2 := remove_active_piece (add_captured_piece (player_2 g) name) name\<rparr>)
                moving_piece current_square new_square)
          | black \<Rightarrow>
             (if oc = black then (Return False, g)
              else apply_move
                (g\<lparr>player_1 := remove_active_piece (add_captured_piece (player_1 g) name) name\<rparr>)
                moving_piece current_square new_square))))"

text \<open>
  \<^verbatim>\<open>make_move\<close>. The first read of the dictionary, \<^verbatim>\<open>get_board_dict()[current_square]\<close>,
  comes before the two membership tests. The call of \<^verbatim>\<open>valid_move\<close> writes the moving
  piece back to the store as the method left it, before the obstacle loop runs. A
  location that is \<^verbatim>\<open>None\<close> cannot arrive at \<^verbatim>\<open>valid_move\<close> (both names are keys by
  then); it would raise \<^verbatim>\<open>TypeError\<close> in the method's arithmetic.
\<close>

definition make_move :: "ChessVar \<Rightarrow> string \<Rightarrow> string \<Rightarrow> bool outcome \<times> ChessVar" where
  "make_move g current_square new_square =
    (if game_state g \<noteq> UNFINISHED then (Return False, g)
     else (case map_of (board_dict g) current_square of
       None \<Rightarrow> (Raise KeyError, g)
     | Some None \<Rightarrow> (Return False, g)
     | Some (Some moving_piece) \<Rightarrow>
        (if color (pieces g ! moving_piece) \<noteq> player_turn g then (Return False, g)
         else if current_square \<notin> fst ` set (board_dict g) then (Return False, g)
         else if new_square \<notin> fst ` set (board_dict g) then (Return False, g)
         else (case get_space_name_as_location (board_dict g) new_square of
           Inl e \<Rightarrow> (Raise e, g)
         | Inr None \<Rightarrow> (Raise TypeError, g)
         | Inr (Some new_square_location) \<Rightarrow>
          (case get_space_name_as_location (board_dict g) current_square of
             Inl e \<Rightarrow> (Raise e, g)
           | Inr None \<Rightarrow> (Raise TypeError, g)
           | Inr (Some moving_piece_location) \<Rightarrow>
            (case map_of (board_dict g) new_square of
               None \<Rightarrow> (Raise KeyError, g)
             | Some opponent_in_new_square \<Rightarrow>
                (let (valid_move_list, self) =
                       valid_move (pieces g ! moving_piece) moving_piece_location
                         new_square_location
                         (map_option (\<lambda>r. color (pieces g ! r)) opponent_in_new_square);
                     g1 = g\<lparr>pieces := (pieces g)[moving_piece := self]\<rparr>
                 in (case valid_move_list of
                   None \<Rightarrow> (Return False, g1)
                 | Some moves \<Rightarrow>
                    (case blocked (board_dict g1) new_square_location
                            moving_piece_location moves of
                       Raise e \<Rightarrow> (Raise e, g1)
                     | Return True \<Rightarrow> (Return False, g1)
                     | Return False \<Rightarrow>
                         capture_and_move g1 moving_piece current_square new_square
                           opponent_in_new_square)))))))))"

text \<open>
  \<^verbatim>\<open>entry_fairy_piece\<close>. Each of the four branches of the source runs the same three
  statements, on \<^verbatim>\<open>_player_1\<close> in all four: bind the entry square to the value of the
  stable key, remove the name from the stable of \<^verbatim>\<open>_player_1\<close>, increment the turn.
\<close>

definition enter :: "ChessVar \<Rightarrow> string \<Rightarrow> kind \<Rightarrow> string \<Rightarrow> bool outcome \<times> ChessVar" where
  "enter g stable_key name entry_square =
    (case map_of (board_dict g) stable_key of
       None \<Rightarrow> (Raise KeyError, g)
     | Some fairy \<Rightarrow>
         (let g1 = g\<lparr>board_dict := AList.update entry_square fairy (board_dict g)\<rparr> in
          (case remove_fairy_piece (player_1 g1) name of
            Inl e \<Rightarrow> (Raise e, g1)
          | Inr p \<Rightarrow> (Return True, increment_turn (g1\<lparr>player_1 := p\<rparr>)))))"

text \<open>
  The gate \<^verbatim>\<open>'rook' or 'knight' or 'bishop' or 'queen' in captured\<close>: \<^verbatim>\<open>in\<close> binds
  tighter than \<^verbatim>\<open>or\<close>, and a string is true when it is not empty.
\<close>

definition truthy :: "string \<Rightarrow> bool" where
  "truthy s \<longleftrightarrow> s \<noteq> []"

definition captured_gate :: "Player \<Rightarrow> bool" where
  "captured_gate p \<longleftrightarrow>
    truthy ''rook'' \<or> truthy ''knight'' \<or> truthy ''bishop'' \<or> queen \<in> set (captured_pieces p)"

definition entry_branch ::
  "ChessVar \<Rightarrow> string \<Rightarrow> string \<Rightarrow> string \<Rightarrow> string \<Rightarrow> bool outcome \<times> ChessVar" where
  "entry_branch g falcon_key hunter_key piece_type entry_square =
    (case map_of (board_dict g) entry_square of
       None \<Rightarrow> (Raise KeyError, g)
     | Some (Some occupant) \<Rightarrow> (Return False, g)
     | Some None \<Rightarrow>
        (if piece_type = falcon_key \<and> falcon \<in> set (fairy_pieces_stable (player_1 g))
            \<and> captured_gate (player_1 g)
         then enter g falcon_key falcon entry_square
         else if piece_type = hunter_key \<and> hunter \<in> set (fairy_pieces_stable (player_1 g))
            \<and> captured_gate (player_1 g)
         then enter g hunter_key hunter entry_square
         else (Return False, g)))"

text \<open>
  A name that is no key makes \<^verbatim>\<open>get_space_name_as_location\<close> return \<^verbatim>\<open>None\<close>, and the
  comparison of \<^verbatim>\<open>None\<close> with a number raises \<^verbatim>\<open>TypeError\<close>.
\<close>

definition entry_fairy_piece :: "ChessVar \<Rightarrow> string \<Rightarrow> string \<Rightarrow> bool outcome \<times> ChessVar" where
  "entry_fairy_piece g piece_type entry_square =
    (case player_turn g of
       white \<Rightarrow>
         (case get_space_name_as_location (board_dict g) entry_square of
            Inl e \<Rightarrow> (Raise e, g)
          | Inr None \<Rightarrow> (Raise TypeError, g)
          | Inr (Some location) \<Rightarrow>
             (if location > 47 then entry_branch g ''F'' ''H'' piece_type entry_square
              else (Return False, g)))
     | black \<Rightarrow>
         (case get_space_name_as_location (board_dict g) entry_square of
            Inl e \<Rightarrow> (Raise e, g)
          | Inr None \<Rightarrow> (Raise TypeError, g)
          | Inr (Some location) \<Rightarrow>
             (if location < 16 then entry_branch g ''f'' ''h'' piece_type entry_square
              else (Return False, g))))"

subsection \<open>Sequences of calls\<close>

text \<open>
  A driver calls the two public operations in any order, with any strings, and may go on
  after a call that returned \<^verbatim>\<open>False\<close> or raised.
\<close>

datatype call = Move string string | Entry string string

fun do_call :: "ChessVar \<Rightarrow> call \<Rightarrow> bool outcome \<times> ChessVar" where
  "do_call g (Move current_square new_square) = make_move g current_square new_square"
| "do_call g (Entry piece_type entry_square) = entry_fairy_piece g piece_type entry_square"

fun run :: "ChessVar \<Rightarrow> call list \<Rightarrow> ChessVar" where
  "run g [] = g"
| "run g (c # cs) = run (snd (do_call g c)) cs"

inductive reachable :: "ChessVar \<Rightarrow> bool" where
  fresh: "reachable ChessVar_init"
| step: "reachable g \<Longrightarrow> reachable (snd (do_call g c))"

subsection \<open>Notions the properties are stated in\<close>

text \<open>The 64 square names, in the order of the location table.\<close>

definition square_names :: "string list" where
  "square_names = map fst name_to_location_dict"

text \<open>
  The slots of the board's dictionary (squares and stable keys) bound to a given piece
  object, and those of them that are squares.
\<close>

definition slots_holding :: "ChessVar \<Rightarrow> ref \<Rightarrow> string list" where
  "slots_holding g r =
    filter (\<lambda>key. map_of (board_dict g) key = Some (Some r)) (map fst (board_dict g))"

definition squares_holding :: "ChessVar \<Rightarrow> ref \<Rightarrow> string list" where
  "squares_holding g r =
    filter (\<lambda>key. map_of (board_dict g) key = Some (Some r)) square_names"

text \<open>The four stable keys, and those of them bound to a given piece object.\<close>

definition stable_keys :: "string list" where
  "stable_keys = [''f'', ''h'', ''F'', ''H'']"

definition stable_holding :: "ChessVar \<Rightarrow> ref \<Rightarrow> string list" where
  "stable_holding g r =
    filter (\<lambda>key. map_of (board_dict g) key = Some (Some r)) stable_keys"

text \<open>
  The square names and their indices in the specification's words: a name is a file
  letter a to h followed by a rank digit 1 to 8, and the index runs row-major from a8,
  which is 0, to h1, which is 63, eight to a row.
\<close>

definition spec_square_names :: "string list" where
  "spec_square_names =
    concat (map (\<lambda>rank. map (\<lambda>file. [file, rank]) ''abcdefgh'') ''87654321'')"

definition spec_index :: "char \<Rightarrow> char \<Rightarrow> int" where
  "spec_index file rank =
    8 * (8 - (int (of_char rank) - 48)) + (int (of_char file) - 97)"

text \<open>
  The geometry the specification asks of a knight and of a bishop, in its words: locations
  run row-major with 8 to a row, so a location's file is its remainder by 8 and its rank
  its quotient. A knight's move has file and rank deltas (1, 2) or (2, 1); a true
  diagonal has equal file and rank deltas.
\<close>

definition file_of :: "int \<Rightarrow> int" where
  "file_of location = location mod 8"

definition rank_of :: "int \<Rightarrow> int" where
  "rank_of location = location div 8"

definition spec_L_shape :: "int \<Rightarrow> int \<Rightarrow> bool" where
  "spec_L_shape from to \<longleftrightarrow>
    (abs (file_of from - file_of to), abs (rank_of from - rank_of to)) \<in> {(1, 2), (2, 1)}"

definition spec_true_diagonal :: "int \<Rightarrow> int \<Rightarrow> bool" where
  "spec_true_diagonal from to \<longleftrightarrow>
    from \<noteq> to \<and> abs (file_of from - file_of to) = abs (rank_of from - rank_of to)"

text \<open>
  What holds of the board in every state a sequence of calls reaches: the keys are the 68
  of the start; each stable key keeps the piece object it got at the start; the stable
  list of \<^verbatim>\<open>_player_1\<close> has no name twice; no piece object is bound to two squares; and
  while a fairy name is in that stable list, neither falcon (or neither hunter) object
  is bound to a square.
\<close>

definition board_inv :: "ChessVar \<Rightarrow> bool" where
  "board_inv g \<longleftrightarrow>
    map fst (board_dict g) = map fst empty_board_dict
    \<and> map_of (board_dict g) ''f'' = Some (Some 16)
    \<and> map_of (board_dict g) ''h'' = Some (Some 17)
    \<and> map_of (board_dict g) ''F'' = Some (Some 34)
    \<and> map_of (board_dict g) ''H'' = Some (Some 35)
    \<and> distinct (fairy_pieces_stable (player_1 g))
    \<and> (\<forall>s \<in> set square_names. \<forall>s' \<in> set square_names. \<forall>r.
          map_of (board_dict g) s = Some (Some r) \<and> map_of (board_dict g) s' = Some (Some r)
          \<longrightarrow> s = s')
    \<and> (falcon \<in> set (fairy_pieces_stable (player_1 g)) \<longrightarrow>
          (\<forall>s \<in> set square_names. map_of (board_dict g) s \<noteq> Some (Some 16)
              \<and> map_of (board_dict g) s \<noteq> Some (Some 34)))
    \<and> (hunter \<in> set (fairy_pieces_stable (player_1 g)) \<longrightarrow>
          (\<forall>s \<in> set square_names. map_of (board_dict g) s \<noteq> Some (Some 17)
              \<and> map_of (board_dict g) s \<noteq> Some (Some 35)))"

section \<open>Properties\<close>

subsection \<open>The knight\<close>

lemma ratio_is_one_iff: "0 < d \<Longrightarrow> ratio_is_one n d \<longleftrightarrow> n = d"
  unfolding ratio_is_one_def
  by (metis eq_divide_eq_1 of_int_eq_iff less_numeral_extra(3) of_int_0_eq_iff)

text \<open>
  C7, as the code has it. For locations in 0..63 the knight's \<^verbatim>\<open>valid_move\<close> accepts a
  move, returning the one-element list of the destination, exactly when the absolute
  index difference is 6, 10, 14, 15 or 17. It looks at nothing else: there is no test of
  files and ranks.
\<close>

theorem knight_accepts_listed_differences:
  assumes "0 \<le> c" "c \<le> 63" "0 \<le> n" "n \<le> 63"
  shows "Knight_valid_move c n =
    (if abs (c - n) = 6 \<or> abs (c - n) = 10 \<or> abs (c - n) = 14 \<or> abs (c - n) = 15
        \<or> abs (c - n) = 17
     then Some [n] else None)"
  by (simp add: Knight_valid_move_def ratio_is_one_iff)

text \<open>b1 to c3 (57 to 42) is accepted, b1 to b3 (57 to 41) is not.\<close>

theorem knight_accepts_listed_differences_witness:
  "Knight_valid_move 57 42 = Some [42] \<and> Knight_valid_move 57 41 = None"
  using knight_accepts_listed_differences [of 57 42]
    knight_accepts_listed_differences [of 57 41]
  by simp

text \<open>
  C7 as stated fails: a8 to g8 (0 to 6) has a listed difference and is accepted, yet it
  stays in one rank and crosses six files, which is no L-shape.
\<close>

theorem knight_wraps_around_counterexample:
  "Knight_valid_move 0 6 = Some [6] \<and> abs ((0::int) - 6) = 6 \<and> \<not> spec_L_shape 0 6"
  by (simp add: Knight_valid_move_def ratio_is_one_iff spec_L_shape_def file_of_def
      rank_of_def)

subsection \<open>The bishop\<close>

lemma bishop_loop7_returns: "i \<le> j \<Longrightarrow> \<exists>y. bishop_loop7 c acc [i..j] = Some y"
  by (simp add: upto_rec1)

text \<open>
  C8, as the code has it. The bishop's \<^verbatim>\<open>valid_move\<close> returns a list exactly when the two
  locations differ and their difference is a multiple of 7 or of 9; files and ranks are
  not looked at. When the difference is a multiple of 9 and not of 7, the list is every
  location between the two (both included) whose distance from the origin is a multiple
  of 9, in ascending order.
\<close>

theorem bishop_accepts_multiples:
  "(Bishop_valid_move c n \<noteq> None \<longleftrightarrow> c \<noteq> n \<and> ((c - n) mod 7 = 0 \<or> (c - n) mod 9 = 0))
   \<and> (c \<noteq> n \<and> (c - n) mod 7 \<noteq> 0 \<and> (c - n) mod 9 = 0 \<longrightarrow>
        Bishop_valid_move c n =
          Some (filter (\<lambda>location. abs (location - c) mod 9 = 0) [min c n..max c n]))"
  by (auto simp: Bishop_valid_move_def bishop_loop7_returns min_def max_def)

text \<open>
  c1 to a3 (58 to 40, difference 18) gives the three squares of the diagonal; c1 to e3
  (58 to 44, difference 14) is accepted; c1 to d3 (58 to 43) is not.
\<close>

theorem bishop_accepts_multiples_witness:
  "Bishop_valid_move 58 40 = Some [40, 49, 58] \<and> Bishop_valid_move 58 44 \<noteq> None
   \<and> Bishop_valid_move 58 43 = None"
  using bishop_accepts_multiples [of 58 40] bishop_accepts_multiples [of 58 44]
    bishop_accepts_multiples [of 58 43]
  by simp

text \<open>
  C8 as stated fails: h8 to a6 (7 to 16) differs by 9 and gets a list, yet it goes from
  file h to file a while the rank changes by two, which is no diagonal.
\<close>

theorem bishop_off_diagonal_counterexample:
  "Bishop_valid_move 7 16 = Some [7, 16] \<and> (7 - 16) mod 9 = (0::int)
   \<and> \<not> spec_true_diagonal 7 16"
  by (simp add: Bishop_valid_move_def spec_true_diagonal_def file_of_def rank_of_def)

subsection \<open>What a call changes\<close>

lemma increment_turn_frame [simp]:
  "board_dict (increment_turn g) = board_dict g"
  "pieces (increment_turn g) = pieces g"
  "player_1 (increment_turn g) = player_1 g"
  "player_2 (increment_turn g) = player_2 g"
  by (simp_all add: increment_turn_def Let_def)

lemma location_is_square:
  "get_space_name_as_location bd s = Inr (Some l) \<Longrightarrow>
    s \<in> set square_names \<and> s \<in> fst ` set bd \<and> map_of name_to_location_dict s = Some l"
  by (auto simp: get_space_name_as_location_def square_names_def
      split: if_splits option.splits dest: map_of_SomeD intro: rev_image_eqI)

lemma apply_move_effect:
  "apply_move g mp c n = (r, g') \<Longrightarrow>
    r = Return True
    \<and> board_dict g' = AList.update c None (AList.update n (Some mp) (board_dict g))
    \<and> player_1 g' = player_1 g \<and> player_2 g' = player_2 g \<and> pieces g' = pieces g"
  by (auto simp: apply_move_def Let_def)

lemma capture_and_move_effect:
  "capture_and_move g mp c n occ = (r, g') \<Longrightarrow>
    (r = Return False \<and> g' = g)
    \<or> (r = Return True
        \<and> board_dict g' = AList.update c None (AList.update n (Some mp) (board_dict g))
        \<and> fairy_pieces_stable (player_1 g') = fairy_pieces_stable (player_1 g)
        \<and> pieces g' = pieces g)"
  by (auto simp: capture_and_move_def Let_def remove_active_piece_def add_captured_piece_def
      split: option.splits color.splits if_splits dest!: apply_move_effect)

lemma make_move_effect:
  assumes "make_move g c n = (r, g')"
  shows "fairy_pieces_stable (player_1 g') = fairy_pieces_stable (player_1 g)
    \<and> ((board_dict g' = board_dict g \<and> r \<noteq> Return True)
       \<or> (\<exists>mp. r = Return True \<and> map_of (board_dict g) c = Some (Some mp)
             \<and> c \<in> set square_names \<and> n \<in> set square_names
             \<and> board_dict g' =
                 AList.update c None (AList.update n (Some mp) (board_dict g))))"
  using assms
  apply (simp add: make_move_def Let_def split: if_splits option.splits sum.splits prod.splits outcome.splits bool.splits)
  apply (auto dest!: capture_and_move_effect location_is_square)
  done


subsection \<open>The board in reachable states\<close>

lemma ChessVar_init_eval:
  "board_dict ChessVar_init =
    [(''f'', Some 16), (''h'', Some 17), (''a8'', Some 8), (''b8'', Some 10),
  (''c8'', Some 12), (''d8'', Some 14), (''e8'', Some 15),
  (''f8'', Some 13), (''g8'', Some 11), (''h8'', Some 9), (''a7'', Some 0),
  (''b7'', Some 1), (''c7'', Some 2), (''d7'', Some 3), (''e7'', Some 4),
  (''f7'', Some 5), (''g7'', Some 6), (''h7'', Some 7), (''a6'', None),
  (''b6'', None), (''c6'', None), (''d6'', None), (''e6'', None),
  (''f6'', None), (''g6'', None), (''h6'', None), (''a5'', None),
  (''b5'', None), (''c5'', None), (''d5'', None), (''e5'', None),
  (''f5'', None), (''g5'', None), (''h5'', None), (''a4'', None),
  (''b4'', None), (''c4'', None), (''d4'', None), (''e4'', None),
  (''f4'', None), (''g4'', None), (''h4'', None), (''a3'', None),
  (''b3'', None), (''c3'', None), (''d3'', None), (''e3'', None),
  (''f3'', None), (''g3'', None), (''h3'', None), (''a2'', Some 18),
  (''b2'', Some 19), (''c2'', Some 20), (''d2'', Some 21),
  (''e2'', Some 22), (''f2'', Some 23), (''g2'', Some 24),
  (''h2'', Some 25), (''a1'', Some 26), (''b1'', Some 28),
  (''c1'', Some 30), (''d1'', Some 32), (''e1'', Some 33),
  (''f1'', Some 31), (''g1'', Some 29), (''h1'', Some 27), (''F'', Some 34),
  (''H'', Some 35)]"
  "fairy_pieces_stable (player_1 ChessVar_init) = [hunter, falcon]"
  by code_simp code_simp


lemma unique_holder:
  assumes "distinct (map snd (filter (\<lambda>kv. snd kv \<noteq> None) bd))"
    and "map_of bd s = Some (Some r)" and "map_of bd s' = Some (Some r)"
  shows "s = s'"
proof -
  let ?held = "filter (\<lambda>kv. snd kv \<noteq> None) bd"
  have "(s, Some r) \<in> set ?held" "(s', Some r) \<in> set ?held"
    using assms(2,3) by (auto dest: map_of_SomeD)
  moreover have "inj_on snd (set ?held)"
    using assms(1) by (simp add: distinct_map)
  ultimately have "(s, Some r) = (s', Some r)"
    by (rule inj_onD [rotated 2]) simp
  then show ?thesis by simp
qed

lemma init_refs_distinct:
  "distinct (map snd (filter (\<lambda>kv. snd kv \<noteq> None) (board_dict ChessVar_init)))"
  unfolding ChessVar_init_eval by simp

lemma stable_keys_not_squares:
  "''f'' \<notin> set square_names" "''h'' \<notin> set square_names"
  "''F'' \<notin> set square_names" "''H'' \<notin> set square_names"
  by (simp_all add: square_names_def name_to_location_dict_def)

lemma init_stable_slots:
  "map_of (board_dict ChessVar_init) ''f'' = Some (Some 16)"
  "map_of (board_dict ChessVar_init) ''h'' = Some (Some 17)"
  "map_of (board_dict ChessVar_init) ''F'' = Some (Some 34)"
  "map_of (board_dict ChessVar_init) ''H'' = Some (Some 35)"
  unfolding ChessVar_init_eval by simp_all

lemma init_keys: "map fst (board_dict ChessVar_init) = map fst empty_board_dict"
  unfolding ChessVar_init_eval
  by (simp add: empty_board_dict_def name_to_location_dict_def)

lemma board_inv_init: "board_inv ChessVar_init"
  unfolding board_inv_def
  using unique_holder [OF init_refs_distinct] init_stable_slots stable_keys_not_squares
  by (simp add: init_keys ChessVar_init_eval(2)) metis


lemma empty_board_keys:
  "map fst empty_board_dict = [''f'', ''h''] @ square_names @ [''F'', ''H'']"
  by (simp add: empty_board_dict_def square_names_def case_prod_beta comp_def)

lemma squares_are_keys: "s \<in> set square_names \<Longrightarrow> s \<in> set (map fst empty_board_dict)"
  by (simp add: empty_board_keys)

lemma update_key_present: "k \<in> set (map fst al) \<Longrightarrow> map fst (AList.update k v al) = map fst al"
  by (simp add: update_keys)

lemma board_inv_move:
  assumes inv: "board_inv g"
    and c: "c \<in> set square_names" and n: "n \<in> set square_names"
    and mp: "map_of (board_dict g) c = Some (Some mp)"
    and bd: "board_dict g' = AList.update c None (AList.update n (Some mp) (board_dict g))"
    and st: "fairy_pieces_stable (player_1 g') = fairy_pieces_stable (player_1 g)"
  shows "board_inv g'"
proof -
  let ?m = "map_of (board_dict g)" and ?m' = "map_of (board_dict g')"
  have m': "?m' = ?m(n \<mapsto> Some mp, c \<mapsto> None)"
    by (simp add: bd update_conv')
  have k: "map fst (board_dict g) = map fst empty_board_dict"
    using inv by (simp add: board_inv_def)
  have "map fst (AList.update n (Some mp) (board_dict g)) = map fst empty_board_dict"
    using squares_are_keys [OF n] by (simp only: update_key_present k)
  then have keys: "map fst (board_dict g') = map fst empty_board_dict"
    unfolding bd using squares_are_keys [OF c] by (simp only: update_key_present)
  have stable_slots: "?m' k = ?m k" if "k \<notin> set square_names" for k
    using that c n by (auto simp: m')
  have uniq: "s = s'"
    if "s \<in> set square_names" "s' \<in> set square_names"
      "?m' s = Some (Some r)" "?m' s' = Some (Some r)" for s s' r
  proof -
    from inv have u: "\<And>a b q. a \<in> set square_names \<Longrightarrow> b \<in> set square_names \<Longrightarrow>
        ?m a = Some (Some q) \<Longrightarrow> ?m b = Some (Some q) \<Longrightarrow> a = b"
      unfolding board_inv_def by blast
    show ?thesis
    proof (cases "r = mp")
      case True
      have "x = n" if "x \<in> set square_names" "?m' x = Some (Some mp)" for x
        using that u [OF that(1) c _ mp] by (auto simp: m' split: if_splits)
      with that True show ?thesis by blast
    next
      case False
      with that have "?m s = Some (Some r)" "?m s' = Some (Some r)"
        by (auto simp: m' split: if_splits)
      with u that show ?thesis by blast
    qed
  qed
  have off: "?m' s \<noteq> Some (Some q)"
    if "s \<in> set square_names" "\<forall>x \<in> set square_names. ?m x \<noteq> Some (Some q)" for s q
    using that c mp by (auto simp: m' split: if_splits)
  show ?thesis
    unfolding board_inv_def
    using inv keys uniq off stable_slots stable_keys_not_squares
    unfolding board_inv_def st
    by (intro conjI) (simp, simp, simp, simp, simp, simp, blast, blast, blast)
qed


lemma enter_effect:
  assumes "enter g key name e = (r, g')"
    and "name \<in> set (fairy_pieces_stable (player_1 g))"
    and "map_of (board_dict g) key = Some fairy"
  shows "r = Return True \<and> board_dict g' = AList.update e fairy (board_dict g)
    \<and> fairy_pieces_stable (player_1 g') = remove1 name (fairy_pieces_stable (player_1 g))"
  using assms by (auto simp: enter_def Let_def remove_fairy_piece_def)

lemma entry_branch_effect:
  assumes "entry_branch g fk hk p e = (r, g')"
    and "map_of (board_dict g) fk = Some (Some fr)"
    and "map_of (board_dict g) hk = Some (Some hr)"
  shows "(r \<noteq> Return True \<and> g' = g)
    \<or> (\<exists>name ref. r = Return True \<and> map_of (board_dict g) e = Some None
          \<and> name \<in> set (fairy_pieces_stable (player_1 g))
          \<and> (p = fk \<and> name = falcon \<and> ref = fr \<or> p = hk \<and> name = hunter \<and> ref = hr)
          \<and> board_dict g' = AList.update e (Some ref) (board_dict g)
          \<and> fairy_pieces_stable (player_1 g') =
              remove1 name (fairy_pieces_stable (player_1 g)))"
  using assms
  by (auto simp: entry_branch_def split: option.splits if_splits dest!: enter_effect)

lemma entry_effect:
  assumes "entry_fairy_piece g p e = (r, g')" and "board_inv g"
  shows "(r \<noteq> Return True \<and> g' = g)
    \<or> (\<exists>name ref. r = Return True \<and> e \<in> set square_names
          \<and> map_of (board_dict g) e = Some None
          \<and> name \<in> set (fairy_pieces_stable (player_1 g))
          \<and> (p = ''f'' \<and> name = falcon \<and> ref = 16 \<or> p = ''F'' \<and> name = falcon \<and> ref = 34
              \<or> p = ''h'' \<and> name = hunter \<and> ref = 17 \<or> p = ''H'' \<and> name = hunter \<and> ref = 35)
          \<and> board_dict g' = AList.update e (Some ref) (board_dict g)
          \<and> fairy_pieces_stable (player_1 g') =
              remove1 name (fairy_pieces_stable (player_1 g)))"
proof -
  from assms(2) have slots:
    "map_of (board_dict g) ''f'' = Some (Some 16)" "map_of (board_dict g) ''h'' = Some (Some 17)"
    "map_of (board_dict g) ''F'' = Some (Some 34)" "map_of (board_dict g) ''H'' = Some (Some 35)"
    by (simp_all add: board_inv_def)
  show ?thesis
  proof (cases "player_turn g")
    case white
    with assms(1) show ?thesis
      using entry_branch_effect [OF _ slots(3) slots(4), of p e r g']
      by (auto simp: entry_fairy_piece_def split: sum.splits option.splits if_splits
          dest!: location_is_square)
  next
    case black
    with assms(1) show ?thesis
      using entry_branch_effect [OF _ slots(1) slots(2), of p e r g']
      by (auto simp: entry_fairy_piece_def split: sum.splits option.splits if_splits
          dest!: location_is_square)
  qed
qed


lemma board_inv_entry:
  assumes inv: "board_inv g"
    and e: "e \<in> set square_names"
    and name: "name \<in> set (fairy_pieces_stable (player_1 g))"
    and ref: "name = falcon \<and> (ref = 16 \<or> ref = 34) \<or> name = hunter \<and> (ref = 17 \<or> ref = 35)"
    and bd: "board_dict g' = AList.update e (Some ref) (board_dict g)"
    and st: "fairy_pieces_stable (player_1 g') = remove1 name (fairy_pieces_stable (player_1 g))"
  shows "board_inv g'"
proof -
  let ?m = "map_of (board_dict g)" and ?m' = "map_of (board_dict g')"
  let ?st = "fairy_pieces_stable (player_1 g)"
  have m': "?m' = ?m(e \<mapsto> Some ref)"
    by (simp add: bd update_conv')
  have k: "map fst (board_dict g) = map fst empty_board_dict"
    using inv by (simp add: board_inv_def)
  have keys: "map fst (board_dict g') = map fst empty_board_dict"
    unfolding bd using squares_are_keys [OF e] by (simp only: update_key_present k)
  have d: "distinct ?st"
    using inv by (simp add: board_inv_def)
  then have st_set: "set (fairy_pieces_stable (player_1 g')) = set ?st - {name}"
    by (simp add: st)
  have stable_slots: "?m' k = ?m k" if "k \<notin> set square_names" for k
    using that e by (auto simp: m')
  from inv have u: "\<And>a b q. a \<in> set square_names \<Longrightarrow> b \<in> set square_names \<Longrightarrow>
      ?m a = Some (Some q) \<Longrightarrow> ?m b = Some (Some q) \<Longrightarrow> a = b"
    unfolding board_inv_def by blast
  from inv name ref have fresh: "\<And>x. x \<in> set square_names \<Longrightarrow> ?m x \<noteq> Some (Some ref)"
    unfolding board_inv_def by blast
  have uniq: "s = s'"
    if "s \<in> set square_names" "s' \<in> set square_names"
      "?m' s = Some (Some r)" "?m' s' = Some (Some r)" for s s' r
  proof (cases "r = ref")
    case True
    have "x = e" if "x \<in> set square_names" "?m' x = Some (Some ref)" for x
      using that fresh [OF that(1)] by (auto simp: m' split: if_splits)
    with that True show ?thesis by blast
  next
    case False
    with that have "?m s = Some (Some r)" "?m s' = Some (Some r)"
      by (auto simp: m' split: if_splits)
    with u that show ?thesis by blast
  qed
  have off_falcon: "?m' s \<noteq> Some (Some 16) \<and> ?m' s \<noteq> Some (Some 34)"
    if "falcon \<in> set (fairy_pieces_stable (player_1 g'))" "s \<in> set square_names" for s
  proof -
    from that(1) have "falcon \<in> set ?st" "name \<noteq> falcon"
      by (auto simp: st_set)
    with inv ref that(2) show ?thesis
      unfolding board_inv_def by (auto simp: m')
  qed
  have off_hunter: "?m' s \<noteq> Some (Some 17) \<and> ?m' s \<noteq> Some (Some 35)"
    if "hunter \<in> set (fairy_pieces_stable (player_1 g'))" "s \<in> set square_names" for s
  proof -
    from that(1) have "hunter \<in> set ?st" "name \<noteq> hunter"
      by (auto simp: st_set)
    with inv ref that(2) show ?thesis
      unfolding board_inv_def by (auto simp: m')
  qed
  have d': "distinct (fairy_pieces_stable (player_1 g'))"
    using d by (simp add: st)
  show ?thesis
    unfolding board_inv_def
    using inv keys uniq off_falcon off_hunter stable_slots stable_keys_not_squares d'
    unfolding board_inv_def
    by (intro conjI) (simp, simp, simp, simp, simp, simp, blast, blast, blast)
qed

lemma board_inv_step: "board_inv g \<Longrightarrow> board_inv (snd (do_call g c))"
proof (cases c)
  case (Move a b)
  assume inv: "board_inv g"
  obtain r g' where mm: "make_move g a b = (r, g')" by (cases "make_move g a b")
  from make_move_effect [OF mm] inv show ?thesis
    unfolding Move
    apply (simp add: mm)
    apply (erule conjE)
    apply (erule disjE)
     apply (simp add: board_inv_def)
    apply (auto intro: board_inv_move)
    done
next
  case (Entry p e)
  assume inv: "board_inv g"
  obtain r g' where ef: "entry_fairy_piece g p e = (r, g')"
    by (cases "entry_fairy_piece g p e")
  from entry_effect [OF ef inv] inv show ?thesis
    unfolding Entry
    by (auto simp: ef intro: board_inv_entry)
qed

lemma reachable_board_inv: "reachable g \<Longrightarrow> board_inv g"
  by (induction rule: reachable.induct) (auto intro: board_inv_init board_inv_step)

lemma reachable_run: "reachable g \<Longrightarrow> reachable (run g cs)"
  by (induction cs arbitrary: g) (auto intro: reachable.step)

subsection \<open>One square for each piece\<close>

lemma filter_at_most_one:
  "distinct xs \<Longrightarrow> (\<And>x y. x \<in> set xs \<Longrightarrow> y \<in> set xs \<Longrightarrow> P x \<Longrightarrow> P y \<Longrightarrow> x = y)
    \<Longrightarrow> length (filter P xs) \<le> 1"
proof (induction xs)
  case Nil
  then show ?case by simp
next
  case (Cons a xs)
  show ?case
  proof (cases "P a")
    case True
    have "filter P xs = []"
    proof (rule ccontr)
      assume "filter P xs \<noteq> []"
      then obtain y where y: "y \<in> set xs" "P y"
        by (metis filter_False)
      with Cons.prems(2) [of a y] True have "a = y" by simp
      with y Cons.prems(1) show False by simp
    qed
    with True show ?thesis by simp
  next
    case False
    with Cons show ?thesis by simp
  qed
qed

lemma distinct_square_names: "distinct square_names"
  by (simp add: square_names_def name_to_location_dict_def)

lemma at_most_one_square: "board_inv g \<Longrightarrow> length (squares_holding g r) \<le> 1"
  unfolding squares_holding_def
  by (rule filter_at_most_one [OF distinct_square_names]) (auto simp: board_inv_def)

lemma singleton_of_member: "x \<in> set ys \<Longrightarrow> length ys \<le> 1 \<Longrightarrow> ys = [x]"
  by (cases ys) auto

lemma stable_holding_eval:
  assumes "board_inv g"
  shows "stable_holding g r =
    (if r = 16 then [''f''] else if r = 17 then [''h'']
     else if r = 34 then [''F''] else if r = 35 then [''H''] else [])"
  using assms by (simp add: stable_holding_def stable_keys_def board_inv_def)

lemma slots_split:
  assumes "board_inv g"
  shows "slots_holding g r =
    filter (\<lambda>key. map_of (board_dict g) key = Some (Some r)) [''f'', ''h'']
    @ squares_holding g r
    @ filter (\<lambda>key. map_of (board_dict g) key = Some (Some r)) [''F'', ''H'']"
proof -
  from assms have "map fst (board_dict g) = [''f'', ''h''] @ square_names @ [''F'', ''H'']"
    by (simp only: board_inv_def empty_board_keys)
  then show ?thesis
    by (simp only: slots_holding_def squares_holding_def filter_append)
qed

lemma slots_are_squares_and_stable_keys:
  assumes "board_inv g"
  shows "set (slots_holding g r) = set (squares_holding g r) \<union> set (stable_holding g r)"
    and "length (slots_holding g r) = length (squares_holding g r) + length (stable_holding g r)"
  unfolding slots_split [OF assms] by (auto simp: stable_holding_def stable_keys_def)

lemma off_board_while_stabled:
  assumes "board_inv g" and "name \<in> set (fairy_pieces_stable (player_1 g))"
    and "name = falcon \<and> (ref = 16 \<or> ref = 34) \<or> name = hunter \<and> (ref = 17 \<or> ref = 35)"
  shows "squares_holding g ref = []"
proof -
  from assms have "\<forall>s \<in> set square_names. map_of (board_dict g) s \<noteq> Some (Some ref)"
    unfolding board_inv_def by blast
  then show ?thesis
    by (simp add: squares_holding_def filter_empty_conv)
qed

text \<open>
  C10, as the code has it. In every state a sequence of \<^verbatim>\<open>make_move\<close> and
  \<^verbatim>\<open>entry_fairy_piece\<close> calls reaches from a fresh match, each piece object is bound to
  at most one of the 64 squares and to at most one stable key, and the slots bound to it
  are those squares and stable keys. The four stable keys stay bound to the fairy objects
  they got at the start: no call rebinds them. So a piece is in at most one slot unless
  it is a fairy piece that has entered, which is on its square and under its own stable
  key. After a successful move the source slot is bound to \<^verbatim>\<open>None\<close>. A successful fairy
  entry names a stable key as its piece type, and the object under that key, on no square
  before the call, is afterwards on the entry square, on no other square, and under that
  stable key and no other.
\<close>

theorem piece_in_one_square_and_own_stable_key:
  assumes "reachable g"
  shows "length (squares_holding g r) \<le> 1
    \<and> length (stable_holding g r) \<le> 1
    \<and> set (slots_holding g r) = set (squares_holding g r) \<union> set (stable_holding g r)
    \<and> length (slots_holding g r) = length (squares_holding g r) + length (stable_holding g r)
    \<and> (\<forall>key \<in> set stable_keys. \<exists>q. map_of (board_dict g) key = Some (Some q)
          \<and> map_of (board_dict ChessVar_init) key = Some (Some q))
    \<and> (make_move g c n = (Return True, g') \<longrightarrow> map_of (board_dict g') c = Some None)
    \<and> (entry_fairy_piece g p e = (Return True, g') \<longrightarrow>
          p \<in> set stable_keys
          \<and> (\<exists>q. map_of (board_dict g) p = Some (Some q) \<and> squares_holding g q = []
                \<and> squares_holding g' q = [e] \<and> stable_holding g' q = [p]))"
proof (intro conjI impI)
  from assms have inv: "board_inv g" by (rule reachable_board_inv)
  then show "length (squares_holding g r) \<le> 1" by (rule at_most_one_square)
  show "length (stable_holding g r) \<le> 1"
    by (simp add: stable_holding_eval [OF inv])
  show "set (slots_holding g r) = set (squares_holding g r) \<union> set (stable_holding g r)"
    by (rule slots_are_squares_and_stable_keys [OF inv])
  show "length (slots_holding g r) = length (squares_holding g r) + length (stable_holding g r)"
    by (rule slots_are_squares_and_stable_keys [OF inv])
  show "\<forall>key \<in> set stable_keys. \<exists>q. map_of (board_dict g) key = Some (Some q)
      \<and> map_of (board_dict ChessVar_init) key = Some (Some q)"
    using inv by (simp add: stable_keys_def board_inv_def init_stable_slots)
  show "map_of (board_dict g') c = Some None" if "make_move g c n = (Return True, g')"
    using make_move_effect [OF that] by (auto simp: update_conv')
  assume ef: "entry_fairy_piece g p e = (Return True, g')"
  from entry_effect [OF ef inv] obtain name ref where
    e: "e \<in> set square_names"
    and name: "name \<in> set (fairy_pieces_stable (player_1 g))"
    and pr: "p = ''f'' \<and> name = falcon \<and> ref = 16 \<or> p = ''F'' \<and> name = falcon \<and> ref = 34
        \<or> p = ''h'' \<and> name = hunter \<and> ref = 17 \<or> p = ''H'' \<and> name = hunter \<and> ref = 35"
    and bd: "board_dict g' = AList.update e (Some ref) (board_dict g)"
    by auto
  from pr show "p \<in> set stable_keys"
    by (auto simp: stable_keys_def)
  have "reachable g'"
    using reachable.step [OF assms, of "Entry p e"] by (simp add: ef)
  then have inv': "board_inv g'" by (rule reachable_board_inv)
  then have "length (squares_holding g' ref) \<le> 1"
    by (rule at_most_one_square)
  moreover have "e \<in> set (squares_holding g' ref)"
    using e by (simp add: squares_holding_def bd update_conv')
  ultimately have on_e: "squares_holding g' ref = [e]"
    by (blast dest: singleton_of_member)
  from pr inv have under_p: "map_of (board_dict g) p = Some (Some ref)"
    by (auto simp: board_inv_def)
  from pr have off: "squares_holding g ref = []"
    by (intro off_board_while_stabled [OF inv name]) auto
  from pr have "stable_holding g' ref = [p]"
    by (auto simp: stable_holding_eval [OF inv'])
  with under_p off on_e
  show "\<exists>q. map_of (board_dict g) p = Some (Some q) \<and> squares_holding g q = []
      \<and> squares_holding g' q = [e] \<and> stable_holding g' q = [p]"
    by blast
qed

text \<open>
  The fresh match and white's pawn on e2 (reference 22): one square, no stable key; the
  move e2 to e4 in it; and the entry of white's falcon (reference 34) on a2 after the moves
  a2 to a3 and a7 to a6.
\<close>

theorem piece_in_one_square_and_own_stable_key_witness:
  "length (squares_holding ChessVar_init 22) \<le> 1
   \<and> length (slots_holding ChessVar_init 22) = length (squares_holding ChessVar_init 22)
   \<and> map_of (board_dict (snd (make_move ChessVar_init ''e2'' ''e4''))) ''e2'' = Some None
   \<and> squares_holding (run ChessVar_init [Move ''a2'' ''a3'', Move ''a7'' ''a6'']) 34 = []
   \<and> squares_holding
        (snd (entry_fairy_piece (run ChessVar_init [Move ''a2'' ''a3'', Move ''a7'' ''a6''])
                ''F'' ''a2'')) 34 = [''a2'']
   \<and> stable_holding
        (snd (entry_fairy_piece (run ChessVar_init [Move ''a2'' ''a3'', Move ''a7'' ''a6''])
                ''F'' ''a2'')) 34 = [''F'']"
proof -
  let ?g = "run ChessVar_init [Move ''a2'' ''a3'', Move ''a7'' ''a6'']"
  let ?g' = "snd (entry_fairy_piece ?g ''F'' ''a2'')"
  have "fst (make_move ChessVar_init ''e2'' ''e4'') = Return True"
    by code_simp
  then have m: "make_move ChessVar_init ''e2'' ''e4''
      = (Return True, snd (make_move ChessVar_init ''e2'' ''e4''))"
    by (metis prod.collapse)
  have "fst (entry_fairy_piece ?g ''F'' ''a2'') = Return True"
    by code_simp
  then have e: "entry_fairy_piece ?g ''F'' ''a2'' = (Return True, ?g')"
    by (metis prod.collapse)
  have r: "reachable ?g"
    by (rule reachable_run [OF reachable.fresh])
  have no_stable: "stable_holding ChessVar_init 22 = []"
    by (simp add: stable_holding_eval [OF board_inv_init])
  have key: "map_of (board_dict ?g) ''F'' = Some (Some 34)"
    using reachable_board_inv [OF r] by (simp add: board_inv_def)
  from piece_in_one_square_and_own_stable_key [OF reachable.fresh, of 22 "''e2''" "''e4''"
        "snd (make_move ChessVar_init ''e2'' ''e4'')"] m no_stable
  have a: "length (squares_holding ChessVar_init 22) \<le> 1"
    "length (slots_holding ChessVar_init 22) = length (squares_holding ChessVar_init 22)"
    "map_of (board_dict (snd (make_move ChessVar_init ''e2'' ''e4''))) ''e2'' = Some None"
    by simp_all
  from piece_in_one_square_and_own_stable_key [OF r, of 0 "''a2''" "''a3''" ?g' "''F''" "''a2''"]
    e key
  have "squares_holding ?g 34 = [] \<and> squares_holding ?g' 34 = [''a2'']
      \<and> stable_holding ?g' 34 = [''F'']"
    by simp
  with a show ?thesis by simp
qed

text \<open>
  C10 as stated fails: after a2 to a3 and a7 to a6, white's entry of the falcon on a2
  succeeds, and the falcon object (reference 34) is then bound to two slots of the
  board's dictionary, the square a2 and the stable key F, which the entry does not
  rebind.
\<close>

theorem fairy_piece_in_two_slots_counterexample:
  "(let g = run ChessVar_init [Move ''a2'' ''a3'', Move ''a7'' ''a6'']
    in fst (entry_fairy_piece g ''F'' ''a2'') = Return True
       \<and> slots_holding (snd (entry_fairy_piece g ''F'' ''a2'')) 34 = [''a2'', ''F''])"
  by code_simp


subsection \<open>Square names and locations\<close>

lemma location_loop_finds:
  "distinct (map snd al) \<Longrightarrow> (k, v) \<in> set al \<Longrightarrow> location_loop al v = Some k"
  by (induction al v rule: location_loop.induct) (auto simp: rev_image_eqI)

lemma distinct_names: "distinct (map fst name_to_location_dict)"
  using distinct_square_names by (simp add: square_names_def)

lemma locations_upto: "map snd name_to_location_dict = [0..63]"
  by code_simp

lemma distinct_locations: "distinct (map snd name_to_location_dict)"
  by (simp add: locations_upto)

lemma locations_range: "snd ` set name_to_location_dict = {0..63}"
  using arg_cong [OF locations_upto, of set] by simp

lemma square_location:
  assumes "s \<in> set square_names"
  obtains l where "(s, l) \<in> set name_to_location_dict"
    "map_of name_to_location_dict s = Some l" "get_location_as_space_name l = Some s"
proof -
  from assms obtain l where l: "(s, l) \<in> set name_to_location_dict"
    by (auto simp: square_names_def)
  then have "map_of name_to_location_dict s = Some l"
    by (simp add: distinct_names)
  moreover have "get_location_as_space_name l = Some s"
    unfolding get_location_as_space_name_def
    by (rule location_loop_finds [OF distinct_locations l])
  ultimately show ?thesis using l that by blast
qed

lemma square_names_standard: "square_names = spec_square_names"
  by (simp add: square_names_def name_to_location_dict_def spec_square_names_def)

lemma file_rank_in_grid:
  "file \<in> set fs \<Longrightarrow> rank \<in> set rs \<Longrightarrow>
    [file, rank] \<in> set (concat (map (\<lambda>rank. map (\<lambda>file. [file, rank]) fs) rs))"
  by auto

lemma standard_name_is_square:
  assumes "file \<in> set ''abcdefgh''" and "rank \<in> set ''12345678''"
  shows "[file, rank] \<in> set square_names"
proof -
  have "set ''12345678'' = set ''87654321''"
    by (simp add: insert_commute)
  with assms(2) have "rank \<in> set ''87654321''"
    by (simp only:)
  with assms(1) show ?thesis
    unfolding square_names_standard spec_square_names_def by (rule file_rank_in_grid)
qed

lemma table_index_all:
  "list_all (\<lambda>(file, rank). map_of name_to_location_dict [file, rank] = Some (spec_index file rank))
     (List.product ''abcdefgh'' ''12345678'')"
  by code_simp

lemma table_index:
  assumes "file \<in> set ''abcdefgh''" and "rank \<in> set ''12345678''"
  shows "map_of name_to_location_dict [file, rank] = Some (spec_index file rank)"
proof -
  from assms have "(file, rank) \<in> set (List.product ''abcdefgh'' ''12345678'')"
    by (simp only: set_product mem_Sigma_iff)
  with table_index_all show ?thesis
    by (auto simp only: list_all_iff)
qed


text \<open>
  C9. In every reachable state, each of the 64 standard square names, a file letter a to h
  followed by a rank digit 1 to 8, converts by \<^verbatim>\<open>get_space_name_as_location\<close> to its
  row-major index (a8 is 0, h1 is 63), and \<^verbatim>\<open>get_location_as_space_name\<close> converts that
  index back to the same name. The 64 names are distinct, and the table maps them
  one-to-one onto the locations 0..63.
\<close>

theorem square_name_round_trip:
  assumes "reachable g"
  shows "(\<forall>file \<in> set ''abcdefgh''. \<forall>rank \<in> set ''12345678''.
            get_space_name_as_location (board_dict g) [file, rank]
              = Inr (Some (spec_index file rank))
            \<and> get_location_as_space_name (spec_index file rank) = Some [file, rank])
    \<and> length spec_square_names = 64 \<and> distinct spec_square_names
    \<and> bij_betw (\<lambda>s. the (map_of name_to_location_dict s)) (set spec_square_names) {0..63}"
proof (intro conjI ballI)
  fix fl rk
  assume fr: "fl \<in> set ''abcdefgh''" "rk \<in> set ''12345678''"
  let ?s = "[fl, rk]"
  have s: "?s \<in> set square_names"
    using fr by (rule standard_name_is_square)
  have idx: "map_of name_to_location_dict ?s = Some (spec_index fl rk)"
    using fr by (rule table_index)
  from assms have "map fst (board_dict g) = map fst empty_board_dict"
    using reachable_board_inv by (simp add: board_inv_def)
  with squares_are_keys [OF s] have key: "?s \<in> fst ` set (board_dict g)"
    by (metis set_map)
  from key idx
  show "get_space_name_as_location (board_dict g) ?s = Inr (Some (spec_index fl rk))"
    by (simp add: get_space_name_as_location_def)
  from s obtain l where l: "map_of name_to_location_dict ?s = Some l"
    "get_location_as_space_name l = Some ?s" by (rule square_location)
  from l(1) idx have "l = spec_index fl rk" by simp
  with l(2) show "get_location_as_space_name (spec_index fl rk) = Some ?s"
    by simp
next
  show "length spec_square_names = 64"
    by (simp add: spec_square_names_def)
next
  show "distinct spec_square_names"
    using distinct_square_names by (simp only: square_names_standard)
next
  let ?f = "\<lambda>s. the (map_of name_to_location_dict s)"
  have "inj_on ?f (set square_names)"
  proof (rule inj_onI)
    fix s s' assume s: "s \<in> set square_names" and s': "s' \<in> set square_names"
      and eq: "?f s = ?f s'"
    from s obtain l where l: "map_of name_to_location_dict s = Some l"
      "get_location_as_space_name l = Some s" by (rule square_location)
    from s' obtain l' where l': "map_of name_to_location_dict s' = Some l'"
      "get_location_as_space_name l' = Some s'" by (rule square_location)
    from eq l(1) l'(1) have "l = l'" by simp
    with l(2) l'(2) show "s = s'" by simp
  qed
  moreover have "?f ` set square_names = {0..63}"
  proof -
    have "?f ` set square_names = snd ` set name_to_location_dict"
    proof (intro set_eqI iffI)
      fix l assume "l \<in> ?f ` set square_names"
      then obtain s where s: "s \<in> set square_names" and l: "l = ?f s" by blast
      from s obtain k where "(s, k) \<in> set name_to_location_dict"
        "map_of name_to_location_dict s = Some k" by (rule square_location)
      with l show "l \<in> snd ` set name_to_location_dict"
        by (simp add: rev_image_eqI)
    next
      fix l assume "l \<in> snd ` set name_to_location_dict"
      then obtain s where sl: "(s, l) \<in> set name_to_location_dict" by auto
      then have "map_of name_to_location_dict s = Some l" "s \<in> set square_names"
        by (simp_all add: distinct_names square_names_def rev_image_eqI)
      then show "l \<in> ?f ` set square_names"
        by (simp add: rev_image_eqI)
    qed
    then show ?thesis by (simp add: locations_range)
  qed
  ultimately show "bij_betw ?f (set spec_square_names) {0..63}"
    by (simp only: bij_betw_def square_names_standard)
qed

text \<open>The square e4, index 36, in the fresh match.\<close>

theorem square_name_round_trip_witness:
  "get_space_name_as_location (board_dict ChessVar_init) ''e4'' = Inr (Some 36)
   \<and> get_location_as_space_name 36 = Some ''e4''
   \<and> length spec_square_names = 64"
proof -
  have i: "spec_index CHR ''e'' CHR ''4'' = 36"
    by (simp add: spec_index_def)
  have "CHR ''e'' \<in> set ''abcdefgh''" "CHR ''4'' \<in> set ''12345678''"
    by simp_all
  with square_name_round_trip [OF reachable.fresh] i show ?thesis
    by (metis (no_types, lifting))
qed

section \<open>Where the code departs from the claims\<close>

text \<open>
  Each theorem below runs the code on a sequence of calls from the fresh match. The
  references are those the set-up gives: white's pawns a2..h2 are 18..25, white's rooks 26
  and 27, white's knights 28 and 29, black's falcon 16, white's falcon 34.
\<close>

text \<open>
  C1 (a rejected \<^verbatim>\<open>make_move\<close> changes nothing, a pawn's first-move flag included) fails
  on the code. After b1 to c3 and a7 to a6 the white pawn on c2 has not moved and its flag
  is set. The double step c2 to c4 is rejected, since the knight stands on c3, yet
  \<^verbatim>\<open>Pawn.valid_move\<close> has cleared the flag before the obstacle is looked for.
\<close>

theorem rejected_pawn_move_clears_first_move:
  "(let g = run ChessVar_init [Move ''b1'' ''c3'', Move ''a7'' ''a6''];
        after = snd (make_move g ''c2'' ''c4'')
    in map_of (board_dict g) ''c2'' = Some (Some 20)
       \<and> piece_name (pieces g ! 20) = pawn
       \<and> first_move (pieces g ! 20) = True
       \<and> fst (make_move g ''c2'' ''c4'') = Return False
       \<and> first_move (pieces after ! 20) = False
       \<and> after \<noteq> g)"
  by code_simp

text \<open>
  C2 (in a won state both operations fail and change nothing) fails on the code for
  \<^verbatim>\<open>entry_fairy_piece\<close>, which never reads the game state. White's knight goes b1, c3,
  d5, c7, e8 and captures the black king; the state is \<^verbatim>\<open>WHITE_WON\<close> and a further
  \<^verbatim>\<open>make_move\<close> returns \<^verbatim>\<open>False\<close>, but black's entry of the falcon on the empty c7
  succeeds, advances the turn and binds the square.
\<close>

theorem fairy_entry_after_king_capture:
  "(let g = run ChessVar_init
              [Move ''b1'' ''c3'', Move ''a7'' ''a6'', Move ''c3'' ''d5'', Move ''a6'' ''a5'',
               Move ''d5'' ''c7'', Move ''a5'' ''a4'', Move ''c7'' ''e8''];
        after = snd (entry_fairy_piece g ''f'' ''c7'')
    in game_state g = WHITE_WON
       \<and> fst (make_move g ''a4'' ''a3'') = Return False
       \<and> fst (entry_fairy_piece g ''f'' ''c7'') = Return True
       \<and> turn after = turn g + 1
       \<and> map_of (board_dict g) ''c7'' = Some None
       \<and> map_of (board_dict after) ''c7'' = Some (Some 16))"
  by code_simp

text \<open>
  C3 (an entry needs a captured rook, knight, bishop or queen) fails on the code: the
  gate is true whatever the captured list holds. After a2 to a3 and a7 to a6 nothing has
  been captured by either side, and white's entry of the falcon on a2 succeeds.
\<close>

theorem fairy_entry_without_capture:
  "(let g = run ChessVar_init [Move ''a2'' ''a3'', Move ''a7'' ''a6'']
    in captured_pieces (player_1 g) = [] \<and> captured_pieces (player_2 g) = []
       \<and> captured_gate (player_1 g)
       \<and> fst (entry_fairy_piece g ''F'' ''a2'') = Return True)"
  by code_simp

text \<open>
  C4 (an entry removes the kind from the entering colour's own stable) fails on the code
  for black: the black branches test and update the stable of \<^verbatim>\<open>_player_1\<close>, white's.
  Black's entry of its falcon on a7 leaves black's stable as it was and takes the falcon
  out of white's, so that white's own falcon entry on the empty a2 is refused next.
  Black's second falcon entry, on the empty b7, is refused as the claim says.
\<close>

theorem black_entry_empties_white_stable:
  "(let g = run ChessVar_init
              [Move ''a2'' ''a3'', Move ''a7'' ''a6'', Move ''b2'' ''b3'', Move ''b7'' ''b6'',
               Move ''c2'' ''c3''];
        after = snd (entry_fairy_piece g ''f'' ''a7'')
    in player_turn g = black
       \<and> fst (entry_fairy_piece g ''f'' ''a7'') = Return True
       \<and> fairy_pieces_stable (player_1 after) = [hunter]
       \<and> fairy_pieces_stable (player_2 after) = [hunter, falcon]
       \<and> map_of (board_dict after) ''a2'' = Some None
       \<and> fst (entry_fairy_piece after ''F'' ''a2'') = Return False
       \<and> map_of (board_dict (snd (make_move after ''c3'' ''c4''))) ''b7'' = Some None
       \<and> fst (entry_fairy_piece (snd (make_move after ''c3'' ''c4'')) ''f'' ''b7'')
           = Return False)"
  by code_simp

text \<open>
  C5 (a string that is no square name makes \<^verbatim>\<open>make_move\<close> return \<^verbatim>\<open>False\<close>) fails on
  the code: in the fresh match a malformed source name raises \<^verbatim>\<open>KeyError\<close> at the first
  read of the dictionary, and a stable key, as source or as destination, raises it in the
  location table.
\<close>

theorem make_move_raises_on_bad_square_names:
  "fst (make_move ChessVar_init ''z9'' ''a3'') = Raise KeyError
   \<and> fst (make_move ChessVar_init ''e'' ''a3'') = Raise KeyError
   \<and> fst (make_move ChessVar_init ''a2'' ''F'') = Raise KeyError
   \<and> fst (make_move ChessVar_init ''F'' ''a3'') = Raise KeyError"
  by code_simp

text \<open>
  C6 (the rook's list holds every square of the segment, and an occupied square in between
  blocks the move) fails on the code for a move to the right along a row: the list is
  empty. After b2 to b3, a7 to a6, c1 to a3 and a6 to a5, white's rook on a1 moves to the
  empty c1 over the knight on b1. The scenario of the claim holds: in the fresh match the
  rook on a1 cannot move to a3 over the pawn on a2.
\<close>

theorem rook_jumps_to_the_right:
  "(let g = run ChessVar_init
              [Move ''b2'' ''b3'', Move ''a7'' ''a6'', Move ''c1'' ''a3'', Move ''a6'' ''a5'']
    in Rook_valid_move 56 58 = Some []
       \<and> map_of (board_dict g) ''a1'' = Some (Some 26)
       \<and> piece_name (pieces g ! 26) = rook
       \<and> map_of (board_dict g) ''b1'' = Some (Some 28)
       \<and> map_of (board_dict g) ''c1'' = Some None
       \<and> fst (make_move g ''a1'' ''c1'') = Return True
       \<and> fst (make_move ChessVar_init ''a1'' ''a3'') = Return False)"
  by code_simp

end
